theory Spec2Isabelle
  imports Complex_Main "HOL-Library.Sublist"
begin

section \<open>Values, errors and string formatting\<close>

text \<open>
  The scoring functions of \<^verbatim>\<open>app.py\<close> read the fields of a dictionary whose values
  come from the market data provider: a value is \<^verbatim>\<open>None\<close>, a number or a string.
  A number \<open>VNum q\<close> stands for the Python \<^verbatim>\<open>int\<close> \<open>q\<close> or for the
  \<^verbatim>\<open>float\<close> nearest to the rational \<open>q\<close>, so \<^verbatim>\<open>isinstance(x, (int, float))\<close>
  is the test for the constructor \<open>VNum\<close>. Comparisons, sums, differences and quotients
  are taken exactly. The products \<^verbatim>\<open>x * 100\<close> that the code formats for display are
  rounded as binary64 arithmetic rounds them (\<open>float_mul\<close> below), since the rounding
  decides the last printed digit. Infinities, NaN, subnormal numbers and integers beyond
  the range of a float are outside the model.
\<close>

datatype pyval = VNone | VNum rat | VStr string

datatype py_error = TypeError | ValueError

fun is_num :: "pyval \<Rightarrow> bool" where
  "is_num (VNum x) = True"
| "is_num v = False"

fun num_val :: "pyval \<Rightarrow> rat" where
  "num_val (VNum x) = x"
| "num_val v = 0"

text \<open>Decimal digits, \<^verbatim>\<open>str(n)\<close> of an integer.\<close>

definition digit_char :: "nat \<Rightarrow> char" where
  "digit_char d = ''0123456789'' ! (d mod 10)"

fun str_nat :: "nat \<Rightarrow> string" where
  "str_nat n = (if n < 10 then [digit_char n] else str_nat (n div 10) @ [digit_char (n mod 10)])"

declare str_nat.simps [simp del]

definition str_int :: "int \<Rightarrow> string" where
  "str_int i = (if i < 0 then ''-'' @ str_nat (nat (- i)) else str_nat (nat i))"

text \<open>
  Python's \<^verbatim>\<open>round(x, 0)\<close> followed by \<^verbatim>\<open>int\<close>: the nearest integer, a tie going
  to the even neighbour.
\<close>

definition py_round :: "rat \<Rightarrow> int" where
  "py_round x =
     (let f = \<lfloor>x\<rfloor>; d = x - of_int f
      in if d < 1 / 2 then f
         else if 1 / 2 < d then f + 1
         else if even f then f else f + 1)"

text \<open>
  Binary64 numbers are the rationals \<open>m * 2 ^ e\<close> with a significand \<open>m\<close> of at most 53
  bits. \<open>bit_length\<close> is \<^verbatim>\<open>int.bit_length\<close>, and \<open>ilog2 a\<close> is the exponent \<open>k\<close>
  with \<open>2 ^ k \<le> a < 2 ^ (k + 1)\<close> of a positive rational. \<open>to_double x\<close> is the float
  nearest to \<open>x\<close>, a tie going to the even significand: the value of a decimal literal, and
  the rounding of every arithmetic result. \<open>float_mul\<close> is the product of two floats.
\<close>

function bit_length :: "int \<Rightarrow> int" where
  "bit_length n = (if n \<le> 0 then 0 else 1 + bit_length (n div 2))"
  by pat_completeness auto
termination
  by (relation "measure nat") auto

declare bit_length.simps [simp del]

definition ilog2 :: "rat \<Rightarrow> int" where
  "ilog2 a =
     (let (p, q) = quotient_of a;
          k = bit_length p - bit_length q
      in if 2 powi k \<le> a then k else k - 1)"

definition to_double :: "rat \<Rightarrow> rat" where
  "to_double x =
     (if x = 0 then 0
      else let e = ilog2 \<bar>x\<bar> - 52;
               m = py_round (\<bar>x\<bar> / 2 powi e)
           in sgn x * of_int m * 2 powi e)"

definition float_mul :: "rat \<Rightarrow> rat \<Rightarrow> rat" where
  "float_mul x y = to_double (to_double x * to_double y)"

text \<open>
  The format specification \<^verbatim>\<open>:.2f\<close> applied to a float \<open>x\<close>: sign, integer part, a
  point and exactly two decimals, the exact value of \<open>x\<close> rounded to the nearest
  hundredth. A negative value that rounds to zero keeps its sign (\<^verbatim>\<open>'-0.00'\<close>), as in
  Python.
\<close>

definition fmt_2f :: "rat \<Rightarrow> string" where
  "fmt_2f x =
     (let n = nat \<bar>py_round (x * 100)\<bar>
      in (if x < 0 then ''-'' else '''') @ str_nat (n div 100) @ ''.'' @
         [digit_char (n mod 100 div 10), digit_char (n mod 10)])"

text \<open>\<^verbatim>\<open>sep.join(xs)\<close>.\<close>

fun join_sep :: "string \<Rightarrow> string list \<Rightarrow> string" where
  "join_sep sep [] = []"
| "join_sep sep [x] = x"
| "join_sep sep (x # y # ys) = x @ sep @ join_sep sep (y # ys)"

section \<open>Analyst rating and analyst upside\<close>

text \<open>
  \<^verbatim>\<open>calculate_analyst_rating_score(recommendation)\<close>. The recommendation is a label or
  absent (\<^verbatim>\<open>None\<close>); the data fetch always stores a string.
\<close>

definition calculate_analyst_rating_score :: "string option \<Rightarrow> int \<times> string" where
  "calculate_analyst_rating_score recommendation =
     (if recommendation = Some ''Strong Buy'' then
        (100, ''Analysts strongly recommend buying based on consensus ratings.'')
      else if recommendation = Some ''Buy'' then
        (80, ''Analysts generally recommend buying.'')
      else if recommendation = Some ''Hold'' then
        (50, ''Analysts suggest holding, expecting modest performance.'')
      else if recommendation = Some ''Sell'' then
        (20, ''Analysts recommend selling due to anticipated underperformance.'')
      else if recommendation = Some ''Strong Sell'' then
        (0, ''Analysts strongly recommend selling due to significant concerns.'')
      else (50, ''Analyst recommendation data unavailable or neutral.''))"

text \<open>\<^verbatim>\<open>calculate_analyst_upside_score(upside_percent)\<close>.\<close>

definition calculate_analyst_upside_score :: "pyval \<Rightarrow> int \<times> string" where
  "calculate_analyst_upside_score upside_percent =
     (if upside_percent = VNone \<or> \<not> is_num upside_percent then
        (50, ''Analyst target price or upside data not available.'')
      else
        let u = num_val upside_percent in
        if u \<ge> 25 / 100 then
          (100, ''Significant upside potential of '' @ fmt_2f (float_mul u 100) @
                ''% according to target prices.'')
        else if u \<ge> 15 / 100 then
          (90, ''High upside potential of '' @ fmt_2f (float_mul u 100) @
               ''% based on target prices.'')
        else if u \<ge> 8 / 100 then
          (75, ''Moderate upside potential of '' @ fmt_2f (float_mul u 100) @
               ''% based on target prices.'')
        else if u \<ge> 2 / 100 then
          (60, ''Modest upside potential of '' @ fmt_2f (float_mul u 100) @
               ''% based on target prices.'')
        else if u \<ge> - (5 / 100) then
          (40, ''Limited upside or slight downside of '' @ fmt_2f (float_mul u 100) @
               ''% based on target prices.'')
        else
          (10, ''Significant downside risk of '' @ fmt_2f (float_mul u 100) @
               ''% based on target prices.''))"

section \<open>The snapshot\<close>

text \<open>
  One daily bar of \<^verbatim>\<open>historicalData\<close>; only the date (as a day number) and the close
  are read by the scoring code.
\<close>

record bar =
  Date :: int
  Close :: rat

text \<open>
  The dictionary \<^verbatim>\<open>stock_data\<close>, restricted to the keys the scoring code reads or
  writes. A key that is missing and a key that holds \<^verbatim>\<open>None\<close> are the same to
  \<^verbatim>\<open>dict.get\<close>; both are \<open>VNone\<close> (or \<open>None\<close>). The fields whose type the code tests
  with \<^verbatim>\<open>isinstance\<close> hold any value; the 52-week bounds, which it uses in arithmetic
  without a test, are numbers or absent. The last four fields are the keys that
  \<^verbatim>\<open>calculate_overall_score_and_reasons\<close> stores; \<open>None\<close> is a key not yet present.
  The key \<^verbatim>\<open>'52WeekHigh'\<close> is the field \<open>fiftyTwoWeekHigh\<close>, and likewise for the low.
\<close>

record stock_data =
  analystRecommendation :: "string option"
  analystUpside :: pyval
  trailingPE :: pyval
  forwardPE :: pyval
  dividendYield :: pyval
  marketCap :: pyval
  beta :: pyval
  historicalData :: "bar list"
  currentPrice :: pyval
  fiftyTwoWeekHigh :: "rat option"
  fiftyTwoWeekLow :: "rat option"
  overallScore :: "int option"
  scoreBreakdown :: "(string \<times> int) list option"
  suggestion :: "string option"
  reasons :: "string list option"

section \<open>Financial analysis\<close>

text \<open>
  \<^verbatim>\<open>calculate_financial_analysis_score(info)\<close> runs five blocks, one per metric, each
  adding to \<^verbatim>\<open>score\<close> and appending to \<^verbatim>\<open>reasons\<close>. A block is a function on the
  pair of the two variables.
\<close>

type_synonym acc = "int \<times> string list"

definition pe_ratio_block :: "pyval \<Rightarrow> acc \<Rightarrow> acc" where
  "pe_ratio_block pe_ratio = (\<lambda>(score, reasons).
     if is_num pe_ratio \<and> num_val pe_ratio > 0 then
       (if num_val pe_ratio < 15 then
          (score + 25, reasons @ [''Healthy Trailing P/E Ratio ('' @ fmt_2f (num_val pe_ratio) @
                                  '') indicates good valuation.''])
        else if num_val pe_ratio < 25 then
          (score + 15, reasons @ [''Moderate Trailing P/E Ratio ('' @ fmt_2f (num_val pe_ratio) @
                                  '').''])
        else
          (score + 5, reasons @ [''High Trailing P/E Ratio ('' @ fmt_2f (num_val pe_ratio) @
             '') suggests potential overvaluation or high growth expectations.'']))
     else
       (score, reasons @ [''Trailing P/E Ratio N/A or not positive, limiting valuation insight.'']))"

definition forward_pe_block :: "pyval \<Rightarrow> acc \<Rightarrow> acc" where
  "forward_pe_block forward_pe = (\<lambda>(score, reasons).
     if is_num forward_pe \<and> num_val forward_pe > 0 then
       (if num_val forward_pe < 15 then
          (score + 20, reasons @ [''Strong Forward P/E Ratio ('' @ fmt_2f (num_val forward_pe) @
                                  '') suggests future earnings growth.''])
        else if num_val forward_pe < 25 then
          (score + 10, reasons @ [''Moderate Forward P/E Ratio ('' @ fmt_2f (num_val forward_pe) @
                                  '').''])
        else
          (score + 2, reasons @ [''High Forward P/E Ratio ('' @ fmt_2f (num_val forward_pe) @
                                 '').'']))
     else
       (score, reasons @ [''Forward P/E Ratio N/A or not positive.'']))"

definition dividend_yield_block :: "pyval \<Rightarrow> acc \<Rightarrow> acc" where
  "dividend_yield_block dividend_yield = (\<lambda>(score, reasons).
     if is_num dividend_yield \<and> num_val dividend_yield > 0 then
       (if num_val dividend_yield \<ge> 3 / 100 then
          (score + 20, reasons @ [''Attractive Dividend Yield of '' @
             fmt_2f (float_mul (num_val dividend_yield) 100) @ ''% provides income.''])
        else if num_val dividend_yield \<ge> 1 / 100 then
          (score + 10, reasons @ [''Modest Dividend Yield of '' @
             fmt_2f (float_mul (num_val dividend_yield) 100) @ ''%.''])
        else
          (score + 5, reasons @ [''Low Dividend Yield of '' @
             fmt_2f (float_mul (num_val dividend_yield) 100) @ ''%.'']))
     else
       (score, reasons @ [''No significant dividend yield, common for growth stocks or those reinvesting earnings.'']))"

definition market_cap_block :: "pyval \<Rightarrow> acc \<Rightarrow> acc" where
  "market_cap_block market_cap = (\<lambda>(score, reasons).
     if is_num market_cap \<and> num_val market_cap > 0 then
       (if num_val market_cap \<ge> 200000000000 then
          (score + 15, reasons @ [''Large market capitalization suggests stability and market leadership.''])
        else if num_val market_cap \<ge> 10000000000 then
          (score + 10, reasons @ [''Solid large-cap market capitalization.''])
        else if num_val market_cap \<ge> 2000000000 then
          (score + 5, reasons @ [''Mid-cap company with potential for growth.''])
        else
          (score, reasons @ [''Smaller market capitalization, potentially higher risk/reward.'']))
     else
       (score, reasons @ [''Market capitalization data unavailable.'']))"

definition beta_block :: "pyval \<Rightarrow> acc \<Rightarrow> acc" where
  "beta_block b = (\<lambda>(score, reasons).
     if is_num b then
       (if num_val b < 8 / 10 then
          (score + 20, reasons @ [''Low Beta ('' @ fmt_2f (num_val b) @
             '') indicates lower volatility relative to the market.''])
        else if num_val b < 12 / 10 then
          (score + 10, reasons @ [''Moderate Beta ('' @ fmt_2f (num_val b) @
             '') suggests volatility in line with the market.''])
        else
          (score + 5, reasons @ [''High Beta ('' @ fmt_2f (num_val b) @
             '') implies higher volatility and potentially higher risk.'']))
     else
       (score, reasons @ [''Beta (market volatility) data unavailable.'']))"

definition limited_financial_data :: string where
  "limited_financial_data = ''Limited financial data available for comprehensive analysis.''"

definition calculate_financial_analysis_score :: "stock_data \<Rightarrow> int \<times> string list" where
  "calculate_financial_analysis_score info =
     (let pe_ratio = trailingPE info;
          forward_pe = forwardPE info;
          dividend_yield = dividendYield info;
          market_cap = marketCap info;
          b = beta info;
          (score, reasons) =
             beta_block b (market_cap_block market_cap (dividend_yield_block dividend_yield
               (forward_pe_block forward_pe (pe_ratio_block pe_ratio (0, [])))));
          final_score = min 100 score
      in (final_score, if reasons = [] then reasons @ [limited_financial_data] else reasons))"

section \<open>Technical analysis\<close>

text \<open>
  \<^verbatim>\<open>Series.rolling(window=w).mean()\<close>: the entry at position \<open>i\<close> is the mean of the
  \<open>w\<close> closes ending at \<open>i\<close>, and is null (\<open>None\<close>) while fewer than \<open>w\<close> closes are
  available.
\<close>

definition rolling_mean :: "nat \<Rightarrow> rat list \<Rightarrow> rat option list" where
  "rolling_mean w xs =
     map (\<lambda>i. if Suc i < w then None
               else Some (sum_list (take w (drop (Suc i - w) xs)) / of_nat w))
         [0..<length xs]"

text \<open>
  \<^verbatim>\<open>df['MA'].iloc[-1] if not df['MA'].isnull().all() else None\<close>: the outer option is
  Python's \<^verbatim>\<open>None\<close>, the inner one a null entry of the series.
\<close>

definition last_ma :: "rat option list \<Rightarrow> rat option option" where
  "last_ma ma = (if list_all (\<lambda>v. v = None) ma then None else Some (last ma))"

text \<open>Comparison with and formatting of a series entry; a null entry compares false.\<close>

fun gt_entry :: "rat \<Rightarrow> rat option \<Rightarrow> bool" where
  "gt_entry x None = False"
| "gt_entry x (Some y) = (x > y)"

fun fmt_2f_entry :: "rat option \<Rightarrow> string" where
  "fmt_2f_entry None = ''nan''"
| "fmt_2f_entry (Some y) = fmt_2f y"

definition not_enough_ma_data :: string where
  "not_enough_ma_data = ''Not enough data to calculate 50-day or 200-day moving averages.''"

definition ma_crossover_block :: "rat \<Rightarrow> rat option option \<Rightarrow> rat option option \<Rightarrow> acc \<Rightarrow> acc" where
  "ma_crossover_block current_price last_ma50 last_ma200 = (\<lambda>(score, reasons).
     if last_ma50 \<noteq> None \<and> last_ma200 \<noteq> None then
       (if gt_entry current_price (the last_ma50) \<and> gt_entry current_price (the last_ma200) then
          (score + 40, reasons @ [''Price ('' @ fmt_2f current_price @ '') is above 50-day ('' @
             fmt_2f_entry (the last_ma50) @ '') and 200-day ('' @ fmt_2f_entry (the last_ma200) @
             '') moving averages (Bullish trend).''])
        else if gt_entry current_price (the last_ma50) then
          (score + 25, reasons @ [''Price ('' @ fmt_2f current_price @
             '') is above 50-day moving average ('' @ fmt_2f_entry (the last_ma50) @
             '') (Positive short-term momentum).''])
        else if gt_entry current_price (the last_ma200) then
          (score + 15, reasons @ [''Price ('' @ fmt_2f current_price @
             '') is above 200-day moving average ('' @ fmt_2f_entry (the last_ma200) @
             '') (Long-term trend support).''])
        else
          (score + 5, reasons @ [''Price ('' @ fmt_2f current_price @
             '') is below key moving averages, indicating bearish pressure.'']))
     else
       (score, reasons @ [not_enough_ma_data]))"

text \<open>Truth value of a number or \<^verbatim>\<open>None\<close>: \<^verbatim>\<open>None\<close> and zero are false.\<close>

fun truthy :: "rat option \<Rightarrow> bool" where
  "truthy None = False"
| "truthy (Some x) = (x \<noteq> 0)"

definition range_not_available :: string where
  "range_not_available = ''52-Week High/Low data not available for range analysis.''"

definition week52_range_block :: "rat option \<Rightarrow> rat option \<Rightarrow> rat \<Rightarrow> acc \<Rightarrow> acc" where
  "week52_range_block fifty_two_week_high fifty_two_week_low current_price = (\<lambda>(score, reasons).
     if truthy fifty_two_week_high \<and> truthy fifty_two_week_low \<and> current_price \<noteq> 0 then
       let price_range = the fifty_two_week_high - the fifty_two_week_low in
       if price_range > 0 then
         let position_in_range = (current_price - the fifty_two_week_low) / price_range in
         if position_in_range \<ge> 9 / 10 then
           (score + 30, reasons @ [''Price is near 52-week high ('' @
              fmt_2f (the fifty_two_week_high) @ ''), showing strong upward momentum.''])
         else if position_in_range \<ge> 7 / 10 then
           (score + 20, reasons @ [''Price is in the upper range of 52-week performance ('' @
              fmt_2f current_price @ '').''])
         else if position_in_range \<le> 1 / 10 then
           (score + 0, reasons @ [''Price is near 52-week low ('' @
              fmt_2f (the fifty_two_week_low) @ ''), indicating weakness.''])
         else if position_in_range \<le> 3 / 10 then
           (score + 5, reasons @ [''Price is in the lower range of 52-week performance ('' @
              fmt_2f current_price @ '').''])
         else
           (score + 10, reasons @ [''Price is in the mid-range of its 52-week performance ('' @
              fmt_2f current_price @ '').''])
       else
         (score, reasons @ [''52-week high and low are too close or invalid for range analysis.''])
     else
       (score, reasons @ [range_not_available]))"

definition recent_performance_block :: "rat list \<Rightarrow> acc \<Rightarrow> acc" where
  "recent_performance_block closes = (\<lambda>(score, reasons).
     if length closes \<ge> 20 then
       let start_price = closes ! (length closes - 20);
           end_price = last closes in
       if start_price \<noteq> 0 then
         let recent_change = (end_price - start_price) / start_price in
         if recent_change \<ge> 5 / 100 then
           (score + 30, reasons @ [''Strong recent performance: Price up '' @
              fmt_2f (float_mul recent_change 100) @ ''% over the last month.''])
         else if recent_change \<ge> 1 / 100 then
           (score + 20, reasons @ [''Positive recent performance: Price up '' @
              fmt_2f (float_mul recent_change 100) @ ''% over the last month.''])
         else if recent_change \<le> - (5 / 100) then
           (score + 0, reasons @ [''Weak recent performance: Price down '' @
              fmt_2f (float_mul \<bar>recent_change\<bar> 100) @ ''% over the last month.''])
         else if recent_change < 0 then
           (score + 10, reasons @ [''Slightly negative recent performance: Price down '' @
              fmt_2f (float_mul \<bar>recent_change\<bar> 100) @ ''% over the last month.''])
         else
           (score + 15, reasons @ [''Stable recent performance over the last month.''])
       else
         (score, reasons @ [''Cannot calculate recent performance due to zero starting price.''])
     else
       (score, reasons @ [''Insufficient data for recent price performance analysis (less than 1 month).'']))"

definition insufficient_history :: string where
  "insufficient_history =
     ''Insufficient historical data for comprehensive technical analysis (less than 200 days).''"

text \<open>
  \<^verbatim>\<open>calculate_technical_analysis_score(historical_data, current_price,
  fifty_two_week_high, fifty_two_week_low)\<close>. The data frame is the list of bars sorted by
  date (bars of one date keep their order here); the column \<^verbatim>\<open>Close\<close> is
  \<open>closes\<close>.
\<close>

definition calculate_technical_analysis_score ::
  "bar list \<Rightarrow> pyval \<Rightarrow> rat option \<Rightarrow> rat option \<Rightarrow> int \<times> string list" where
  "calculate_technical_analysis_score historical_data current_price fifty_two_week_high
       fifty_two_week_low =
     (if historical_data = [] \<or> length historical_data < 200 then (50, [insufficient_history])
      else
        let df = sort_key Date historical_data;
            closes = map Close df;
            (price, reasons) =
               (if current_price = VNone \<or> \<not> is_num current_price then
                  (last closes,
                   [''Using last available closing price for current price in technical analysis.''])
                else (num_val current_price, []));
            last_ma50 = last_ma (rolling_mean 50 closes);
            last_ma200 = last_ma (rolling_mean 200 closes);
            (score, reasons) =
               recent_performance_block closes
                 (week52_range_block fifty_two_week_high fifty_two_week_low price
                   (ma_crossover_block price last_ma50 last_ma200 (0, reasons)));
            final_score = min 100 score
        in (final_score,
            if reasons = [] then
              reasons @ [''Limited technical data available for comprehensive analysis.'']
            else reasons))"

section \<open>The aggregator\<close>

text \<open>
  The operand of the second summary line, \<^verbatim>\<open>f"{(analyst_upside * 100):.2f}"\<close>:
  \<^verbatim>\<open>None * 100\<close> raises \<^verbatim>\<open>TypeError\<close>; a string times 100 is a string, which the
  format code \<^verbatim>\<open>f\<close> rejects with \<^verbatim>\<open>ValueError\<close>.
\<close>

fun fmt_upside_pct :: "pyval \<Rightarrow> py_error + string" where
  "fmt_upside_pct VNone = Inl TypeError"
| "fmt_upside_pct (VStr s) = Inl ValueError"
| "fmt_upside_pct (VNum u) = Inr (fmt_2f (float_mul u 100))"

text \<open>\<^verbatim>\<open>str\<close> of the recommendation inside an f-string.\<close>

fun str_opt :: "string option \<Rightarrow> string" where
  "str_opt None = ''None''"
| "str_opt (Some s) = s"

text \<open>
  The weighted sum and its rounding, \<^verbatim>\<open>int(round(overall_score, 0))\<close>. The scores
  are small integers and 0.25 is a power of two, so the floating-point sum is the exact
  one.
\<close>

definition weighted_overall_score :: "int \<Rightarrow> int \<Rightarrow> int \<Rightarrow> int \<Rightarrow> int" where
  "weighted_overall_score analyst_rating_score analyst_upside_score financial_analysis_score
       technical_analysis_score =
     py_round (of_int analyst_rating_score * (25 / 100) +
               of_int analyst_upside_score * (25 / 100) +
               of_int financial_analysis_score * (25 / 100) +
               of_int technical_analysis_score * (25 / 100))"

text \<open>The threshold chain: the suggestion and the sentence put in front of the reasons.\<close>

definition overall_suggestion :: "int \<Rightarrow> string \<times> string" where
  "overall_suggestion overall =
     (if overall \<ge> 85 then
        (''Strong Buy'', ''**Overall Recommendation: Strong Buy** - The stock exhibits excellent performance across all key indicators, suggesting a high-conviction buying opportunity.'')
      else if overall \<ge> 70 then
        (''Buy'', ''**Overall Recommendation: Buy** - The stock shows strong potential with favorable analyst sentiment, solid financials, and positive technical trends.'')
      else if overall \<ge> 50 then
        (''Hold'', ''**Overall Recommendation: Hold** - The stock presents a balanced profile. Consider holding if already invested, or wait for clearer signals if not.'')
      else if overall \<ge> 30 then
        (''Sell'', ''**Overall Recommendation: Sell** - The stock shows some concerning indicators across analyst, financial, or technical fronts. Consider exiting your position.'')
      else
        (''Strong Sell'', ''**Overall Recommendation: Strong Sell** - The stock demonstrates significant weaknesses, indicating a high risk and strong recommendation to sell.''))"

text \<open>
  \<^verbatim>\<open>calculate_overall_score_and_reasons(stock_data)\<close>. The function stores four keys in
  the dictionary it was given and returns that dictionary; the model returns the updated
  record, or the exception raised before anything was stored.
\<close>

definition calculate_overall_score_and_reasons :: "stock_data \<Rightarrow> py_error + stock_data" where
  "calculate_overall_score_and_reasons stock_data =
     (let analyst_recommendation = analystRecommendation stock_data;
          (analyst_rating_score, reason_ar) = calculate_analyst_rating_score analyst_recommendation;
          line_ar = ''Analyst Rating: '' @ str_opt analyst_recommendation @ '' - '' @ reason_ar @
                    '' (Score: '' @ str_int analyst_rating_score @ ''%)'';
          analyst_upside = analystUpside stock_data;
          (analyst_upside_score, reason_au) = calculate_analyst_upside_score analyst_upside
      in case fmt_upside_pct analyst_upside of
           Inl e \<Rightarrow> Inl e
         | Inr pct \<Rightarrow>
             let line_au = ''Analyst Upside: '' @ pct @ ''% - '' @ reason_au @
                           '' (Score: '' @ str_int analyst_upside_score @ ''%)'';
                 (financial_analysis_score, reason_fa) = calculate_financial_analysis_score stock_data;
                 line_fa = ''Financial Analysis: '' @ join_sep ''; '' reason_fa @
                           '' (Score: '' @ str_int financial_analysis_score @ ''%)'';
                 historical_data = historicalData stock_data;
                 current_price = currentPrice stock_data;
                 fifty_two_week_high = fiftyTwoWeekHigh stock_data;
                 fifty_two_week_low = fiftyTwoWeekLow stock_data;
                 (technical_analysis_score, reason_ta) =
                    calculate_technical_analysis_score historical_data current_price
                      fifty_two_week_high fifty_two_week_low;
                 line_ta = ''Technical Analysis: '' @ join_sep ''; '' reason_ta @
                           '' (Score: '' @ str_int technical_analysis_score @ ''%)'';
                 score_breakdown = [(''analystRating'', analyst_rating_score),
                                    (''analystUpside'', analyst_upside_score),
                                    (''financialAnalysis'', financial_analysis_score),
                                    (''technicalAnalysis'', technical_analysis_score)];
                 overall = weighted_overall_score analyst_rating_score analyst_upside_score
                             financial_analysis_score technical_analysis_score;
                 (sugg, sentence) = overall_suggestion overall;
                 detailed_reasons = sentence # [line_ar, line_au, line_fa, line_ta]
             in Inr (stock_data\<lparr>overallScore := Some overall,
                                 scoreBreakdown := Some score_breakdown,
                                 suggestion := Some sugg,
                                 reasons := Some detailed_reasons\<rparr>))"

section \<open>Example inputs and the specification's tables\<close>

text \<open>The snapshot in which every key is missing.\<close>

definition absent_snapshot :: stock_data where
  "absent_snapshot =
     \<lparr>analystRecommendation = None, analystUpside = VNone, trailingPE = VNone,
      forwardPE = VNone, dividendYield = VNone, marketCap = VNone, beta = VNone,
      historicalData = [], currentPrice = VNone, fiftyTwoWeekHigh = None,
      fiftyTwoWeekLow = None, overallScore = None, scoreBreakdown = None,
      suggestion = None, reasons = None\<rparr>"

text \<open>
  What the data fetch stores for a ticker without analyst target price: a recommendation
  label, and \<^verbatim>\<open>None\<close> under \<^verbatim>\<open>analystUpside\<close>.
\<close>

definition no_target_snapshot :: stock_data where
  "no_target_snapshot =
     absent_snapshot\<lparr>analystRecommendation := Some ''Buy'', currentPrice := VNum 120,
       fiftyTwoWeekHigh := Some 150, fiftyTwoWeekLow := Some 90\<rparr>"

text \<open>A snapshot with a numeric upside and nothing else but a recommendation.\<close>

definition upside_snapshot :: stock_data where
  "upside_snapshot =
     absent_snapshot\<lparr>analystRecommendation := Some ''Buy'', analystUpside := VNum (2499 / 10000)\<rparr>"

text \<open>The best case of the financial metrics.\<close>

definition best_financials :: stock_data where
  "best_financials =
     absent_snapshot\<lparr>trailingPE := VNum 10, forwardPE := VNum 10, dividendYield := VNum (4 / 100),
       marketCap := VNum 300000000000, beta := VNum (1 / 2)\<rparr>"

text \<open>A history of 252 bars whose close rises by one each day.\<close>

definition rising_history :: "bar list" where
  "rising_history = map (\<lambda>i. \<lparr>Date = int i, Close = of_nat (100 + i)\<rparr>) [0..<252]"




text \<open>
  A snapshot with the best financial metrics, the recommendation Strong Buy and no
  analyst upside.
\<close>

definition strong_buy_snapshot :: stock_data where
  "strong_buy_snapshot = best_financials\<lparr>analystRecommendation := Some ''Strong Buy''\<rparr>"

text \<open>The reasons stored by a call of the aggregator; none when the call raised.\<close>

definition reasons_of :: "py_error + stock_data \<Rightarrow> string list" where
  "reasons_of result =
     (case result of
        Inl e \<Rightarrow> []
      | Inr s \<Rightarrow> (case reasons s of None \<Rightarrow> [] | Some rs \<Rightarrow> rs))"




section \<open>Score ranges\<close>

lemma rating_score_range:
  "0 \<le> fst (calculate_analyst_rating_score r) \<and> fst (calculate_analyst_rating_score r) \<le> 100"
  by (simp add: calculate_analyst_rating_score_def)

lemma upside_score_range:
  "0 \<le> fst (calculate_analyst_upside_score v) \<and> fst (calculate_analyst_upside_score v) \<le> 100"
  by (simp add: calculate_analyst_upside_score_def Let_def)

lemma pe_ratio_block_fst:
  "fst a \<le> fst (pe_ratio_block v a) \<and> fst (pe_ratio_block v a) \<le> fst a + 25"
  by (cases a) (simp add: pe_ratio_block_def)

lemma forward_pe_block_fst:
  "fst a \<le> fst (forward_pe_block v a) \<and> fst (forward_pe_block v a) \<le> fst a + 20"
  by (cases a) (simp add: forward_pe_block_def)

lemma dividend_yield_block_fst:
  "fst a \<le> fst (dividend_yield_block v a) \<and> fst (dividend_yield_block v a) \<le> fst a + 20"
  by (cases a) (simp add: dividend_yield_block_def)

lemma market_cap_block_fst:
  "fst a \<le> fst (market_cap_block v a) \<and> fst (market_cap_block v a) \<le> fst a + 15"
  by (cases a) (simp add: market_cap_block_def)

lemma beta_block_fst:
  "fst a \<le> fst (beta_block v a) \<and> fst (beta_block v a) \<le> fst a + 20"
  by (cases a) (simp add: beta_block_def)

lemma financial_score_eq:
  "fst (calculate_financial_analysis_score info) =
     min 100 (fst (beta_block (beta info) (market_cap_block (marketCap info)
       (dividend_yield_block (dividendYield info) (forward_pe_block (forwardPE info)
         (pe_ratio_block (trailingPE info) (0, [])))))))"
  by (simp add: calculate_financial_analysis_score_def Let_def case_prod_beta)

lemma financial_score_range:
  "0 \<le> fst (calculate_financial_analysis_score info) \<and>
   fst (calculate_financial_analysis_score info) \<le> 100"
proof -
  let ?a1 = "pe_ratio_block (trailingPE info) (0, [])"
  let ?a2 = "forward_pe_block (forwardPE info) ?a1"
  let ?a3 = "dividend_yield_block (dividendYield info) ?a2"
  let ?a4 = "market_cap_block (marketCap info) ?a3"
  let ?a5 = "beta_block (beta info) ?a4"
  have "0 \<le> fst ?a1" using pe_ratio_block_fst [of "(0, [])" "trailingPE info"] by simp
  also have "\<dots> \<le> fst ?a2" using forward_pe_block_fst by blast
  also have "\<dots> \<le> fst ?a3" using dividend_yield_block_fst by blast
  also have "\<dots> \<le> fst ?a4" using market_cap_block_fst by blast
  also have "\<dots> \<le> fst ?a5" using beta_block_fst by blast
  finally have "0 \<le> fst ?a5" .
  then show ?thesis by (simp add: financial_score_eq)
qed

lemma ma_crossover_block_fst:
  "fst a \<le> fst (ma_crossover_block p m n a) \<and> fst (ma_crossover_block p m n a) \<le> fst a + 40"
  by (cases a) (simp add: ma_crossover_block_def)

lemma week52_range_block_fst:
  "fst a \<le> fst (week52_range_block h l p a) \<and> fst (week52_range_block h l p a) \<le> fst a + 30"
  by (cases a) (simp add: week52_range_block_def Let_def)

lemma recent_performance_block_fst:
  "fst a \<le> fst (recent_performance_block cs a) \<and>
   fst (recent_performance_block cs a) \<le> fst a + 30"
  by (cases a) (simp add: recent_performance_block_def Let_def)

text \<open>Past its guard, the technical scorer is the three blocks run in order.\<close>

lemma technical_long:
  assumes "200 \<le> length h"
  shows "calculate_technical_analysis_score h p hi lo =
     (let closes = map Close (sort_key Date h);
          start = (if p = VNone \<or> \<not> is_num p then
                     (last closes,
                      [''Using last available closing price for current price in technical analysis.''])
                   else (num_val p, []));
          a = recent_performance_block closes
                (week52_range_block hi lo (fst start)
                  (ma_crossover_block (fst start) (last_ma (rolling_mean 50 closes))
                    (last_ma (rolling_mean 200 closes)) (0, snd start)))
      in (min 100 (fst a),
          if snd a = [] then
            snd a @ [''Limited technical data available for comprehensive analysis.'']
          else snd a))"
proof -
  from assms have "\<not> (h = [] \<or> length h < 200)" by auto
  then show ?thesis
    by (simp add: calculate_technical_analysis_score_def Let_def case_prod_beta)
qed

lemma technical_score_range:
  "0 \<le> fst (calculate_technical_analysis_score h p hi lo) \<and>
   fst (calculate_technical_analysis_score h p hi lo) \<le> 100"
proof (cases "200 \<le> length h")
  case False
  then show ?thesis by (simp add: calculate_technical_analysis_score_def)
next
  case True
  define closes where "closes = map Close (sort_key Date h)"
  define start where "start = (if p = VNone \<or> \<not> is_num p then
       (last closes,
        [''Using last available closing price for current price in technical analysis.''])
     else (num_val p, []))"
  let ?a1 = "ma_crossover_block (fst start) (last_ma (rolling_mean 50 closes))
               (last_ma (rolling_mean 200 closes)) (0, snd start)"
  let ?a2 = "week52_range_block hi lo (fst start) ?a1"
  let ?a3 = "recent_performance_block closes ?a2"
  have eq: "fst (calculate_technical_analysis_score h p hi lo) = min 100 (fst ?a3)"
    by (simp add: technical_long [OF True] Let_def closes_def start_def)
  have "0 \<le> fst ?a1" using ma_crossover_block_fst [of "(0, snd start)"] by simp
  also have "\<dots> \<le> fst ?a2" using week52_range_block_fst by blast
  also have "\<dots> \<le> fst ?a3" using recent_performance_block_fst by blast
  finally show ?thesis by (simp add: eq)
qed

text \<open>
  Claim C2. Each of the four scorers returns a score between 0 and 100, whatever its
  input: the recommendation label or its absence, any upside value, any snapshot of
  financial metrics, and any history, current price and 52-week bounds (the empty history
  and absent values included).
\<close>

theorem scorers_score_in_range:
  "(0 \<le> fst (calculate_analyst_rating_score recommendation) \<and>
    fst (calculate_analyst_rating_score recommendation) \<le> 100) \<and>
   (0 \<le> fst (calculate_analyst_upside_score upside_percent) \<and>
    fst (calculate_analyst_upside_score upside_percent) \<le> 100) \<and>
   (0 \<le> fst (calculate_financial_analysis_score info) \<and>
    fst (calculate_financial_analysis_score info) \<le> 100) \<and>
   (0 \<le> fst (calculate_technical_analysis_score historical_data current_price
              fifty_two_week_high fifty_two_week_low) \<and>
    fst (calculate_technical_analysis_score historical_data current_price
           fifty_two_week_high fifty_two_week_low) \<le> 100)"
  using rating_score_range upside_score_range financial_score_range technical_score_range
  by blast

theorem scorers_score_in_range_witness:
  "(0 \<le> fst (calculate_analyst_rating_score None) \<and>
    fst (calculate_analyst_rating_score None) \<le> 100) \<and>
   (0 \<le> fst (calculate_analyst_upside_score VNone) \<and>
    fst (calculate_analyst_upside_score VNone) \<le> 100) \<and>
   (0 \<le> fst (calculate_financial_analysis_score absent_snapshot) \<and>
    fst (calculate_financial_analysis_score absent_snapshot) \<le> 100) \<and>
   (0 \<le> fst (calculate_technical_analysis_score [] VNone None None) \<and>
    fst (calculate_technical_analysis_score [] VNone None None) \<le> 100)"
  by (rule scorers_score_in_range)

text \<open>
  Claim C5. With fewer than 200 bars (none at all included) the technical scorer returns
  at once the neutral result: score 50 and the single reason that the history is
  insufficient, whatever the current price and the 52-week bounds are.
\<close>

theorem technical_insufficient_history:
  "length historical_data < 200 \<Longrightarrow>
   calculate_technical_analysis_score historical_data current_price fifty_two_week_high
     fifty_two_week_low =
   (50, [''Insufficient historical data for comprehensive technical analysis (less than 200 days).''])"
  by (simp add: calculate_technical_analysis_score_def insufficient_history_def)

theorem technical_insufficient_history_witness:
  "length (take 199 rising_history) < 200 \<and>
   calculate_technical_analysis_score (take 199 rising_history) (VNum 360) (Some 351) (Some 100) =
   (50, [''Insufficient historical data for comprehensive technical analysis (less than 200 days).''])"
proof -
  have short: "length (take 199 rising_history) < 200" by simp
  show ?thesis
    using short technical_insufficient_history [OF short] by blast
qed

section \<open>Financial analysis: the reasons\<close>

lemma financial_reasons_absent:
  assumes "trailingPE info = VNone" "forwardPE info = VNone" "dividendYield info = VNone"
    "marketCap info = VNone" "beta info = VNone"
  shows "calculate_financial_analysis_score info =
    (0, [''Trailing P/E Ratio N/A or not positive, limiting valuation insight.'',
         ''Forward P/E Ratio N/A or not positive.'',
         ''No significant dividend yield, common for growth stocks or those reinvesting earnings.'',
         ''Market capitalization data unavailable.'',
         ''Beta (market volatility) data unavailable.''])"
  using assms
  by (simp add: calculate_financial_analysis_score_def pe_ratio_block_def forward_pe_block_def
      dividend_yield_block_def market_cap_block_def beta_block_def)

lemma financial_best:
  assumes "trailingPE info = VNum 10" "forwardPE info = VNum 10"
    "dividendYield info = VNum (4 / 100)" "marketCap info = VNum 300000000000"
    "beta info = VNum (1 / 2)"
  shows "fst (calculate_financial_analysis_score info) = 100"
  using assms
  by (simp add: calculate_financial_analysis_score_def pe_ratio_block_def forward_pe_block_def
      dividend_yield_block_def market_cap_block_def beta_block_def)

text \<open>Every block appends exactly one reason, and never the fallback sentence.\<close>

lemma pe_ratio_block_snd:
  "\<exists>r. snd (pe_ratio_block v a) = snd a @ [r] \<and> r \<noteq> limited_financial_data"
  by (cases a) (simp add: pe_ratio_block_def limited_financial_data_def)

lemma forward_pe_block_snd:
  "\<exists>r. snd (forward_pe_block v a) = snd a @ [r] \<and> r \<noteq> limited_financial_data"
  by (cases a) (simp add: forward_pe_block_def limited_financial_data_def)

lemma dividend_yield_block_snd:
  "\<exists>r. snd (dividend_yield_block v a) = snd a @ [r] \<and> r \<noteq> limited_financial_data"
  by (cases a) (simp add: dividend_yield_block_def limited_financial_data_def)

lemma market_cap_block_snd:
  "\<exists>r. snd (market_cap_block v a) = snd a @ [r] \<and> r \<noteq> limited_financial_data"
  by (cases a) (simp add: market_cap_block_def limited_financial_data_def)

lemma beta_block_snd:
  "\<exists>r. snd (beta_block v a) = snd a @ [r] \<and> r \<noteq> limited_financial_data"
  by (cases a) (simp add: beta_block_def limited_financial_data_def)

lemma financial_reasons_five:
  "length (snd (calculate_financial_analysis_score info)) = 5 \<and>
   limited_financial_data \<notin> set (snd (calculate_financial_analysis_score info))"
proof -
  let ?a1 = "pe_ratio_block (trailingPE info) (0, [])"
  let ?a2 = "forward_pe_block (forwardPE info) ?a1"
  let ?a3 = "dividend_yield_block (dividendYield info) ?a2"
  let ?a4 = "market_cap_block (marketCap info) ?a3"
  let ?a5 = "beta_block (beta info) ?a4"
  obtain r1 where r1: "snd ?a1 = [r1]" "r1 \<noteq> limited_financial_data"
    using pe_ratio_block_snd [of "trailingPE info" "(0, [])"] by auto
  obtain r2 where r2: "snd ?a2 = snd ?a1 @ [r2]" "r2 \<noteq> limited_financial_data"
    using forward_pe_block_snd by blast
  obtain r3 where r3: "snd ?a3 = snd ?a2 @ [r3]" "r3 \<noteq> limited_financial_data"
    using dividend_yield_block_snd by blast
  obtain r4 where r4: "snd ?a4 = snd ?a3 @ [r4]" "r4 \<noteq> limited_financial_data"
    using market_cap_block_snd by blast
  obtain r5 where r5: "snd ?a5 = snd ?a4 @ [r5]" "r5 \<noteq> limited_financial_data"
    using beta_block_snd by blast
  have all: "snd ?a5 = [r1, r2, r3, r4, r5]"
    using r1(1) r2(1) r3(1) r4(1) r5(1) by simp
  have "snd (calculate_financial_analysis_score info) = snd ?a5"
    using all by (simp add: calculate_financial_analysis_score_def Let_def case_prod_beta)
  with all r1(2) r2(2) r3(2) r4(2) r5(2) show ?thesis by auto
qed

text \<open>
  Claim C4, as stated, fails: when every financial metric is absent the scorer does not
  return the single fallback reason. Each of the five blocks has appended a reason of
  its own by then, so the list is never empty.
\<close>

theorem financial_absent_not_single_fallback:
  "snd (calculate_financial_analysis_score absent_snapshot) \<noteq>
     [''Limited financial data available for comprehensive analysis.'']"
  by (simp add: financial_reasons_absent absent_snapshot_def)

text \<open>
  Claim C4, amended. When every financial metric is absent the scorer returns score 0 and
  five reasons, one note per metric in the order trailing P/E, forward P/E, dividend
  yield, market capitalisation, beta. For the best case (P/E 10, forward P/E 10, dividend
  yield 0.04, market capitalisation 300e9, beta 0.5) the score is 100. For every input
  the reasons are five, and the fallback sentence about limited data is not among them.
\<close>

theorem financial_absent_and_best_case:
  "(trailingPE info = VNone \<and> forwardPE info = VNone \<and> dividendYield info = VNone \<and>
    marketCap info = VNone \<and> beta info = VNone \<longrightarrow>
    calculate_financial_analysis_score info =
      (0, [''Trailing P/E Ratio N/A or not positive, limiting valuation insight.'',
           ''Forward P/E Ratio N/A or not positive.'',
           ''No significant dividend yield, common for growth stocks or those reinvesting earnings.'',
           ''Market capitalization data unavailable.'',
           ''Beta (market volatility) data unavailable.''])) \<and>
   (trailingPE best = VNum 10 \<and> forwardPE best = VNum 10 \<and>
    dividendYield best = VNum (4 / 100) \<and> marketCap best = VNum 300000000000 \<and>
    beta best = VNum (1 / 2) \<longrightarrow>
    fst (calculate_financial_analysis_score best) = 100) \<and>
   length (snd (calculate_financial_analysis_score any)) = 5 \<and>
   ''Limited financial data available for comprehensive analysis.'' \<notin>
     set (snd (calculate_financial_analysis_score any))"
  using financial_reasons_absent [of info] financial_best [of best]
    financial_reasons_five [of any]
  by (simp add: limited_financial_data_def)

theorem financial_absent_and_best_case_witness:
  "calculate_financial_analysis_score absent_snapshot =
      (0, [''Trailing P/E Ratio N/A or not positive, limiting valuation insight.'',
           ''Forward P/E Ratio N/A or not positive.'',
           ''No significant dividend yield, common for growth stocks or those reinvesting earnings.'',
           ''Market capitalization data unavailable.'',
           ''Beta (market volatility) data unavailable.'']) \<and>
   fst (calculate_financial_analysis_score best_financials) = 100 \<and>
   length (snd (calculate_financial_analysis_score best_financials)) = 5"
  using financial_absent_and_best_case [of absent_snapshot best_financials best_financials]
  by (simp add: absent_snapshot_def best_financials_def)

section \<open>Rounding to a float, and reading a formatted number back\<close>


























section \<open>Analyst upside: the tiers and the reason\<close>






section \<open>Technical analysis: moving averages and the 52-week range\<close>

lemma last_rolling_mean:
  assumes "xs \<noteq> []" "w \<le> length xs"
  shows "last (rolling_mean w xs) = Some (sum_list (take w (drop (length xs - w) xs)) / of_nat w)"
proof -
  from assms(1) have n: "0 < length xs" by simp
  then have "[0..<length xs] \<noteq> []" by simp
  then have "last (rolling_mean w xs) =
      (\<lambda>i. if Suc i < w then None
            else Some (sum_list (take w (drop (Suc i - w) xs)) / of_nat w)) (last [0..<length xs])"
    unfolding rolling_mean_def by (rule last_map)
  also have "last [0..<length xs] = length xs - 1" using n by (simp add: last_upt)
  finally show ?thesis using n assms(2) by (simp add: Suc_diff_Suc)
qed

lemma last_ma_rolling_mean:
  assumes "xs \<noteq> []" "w \<le> length xs"
  shows "last_ma (rolling_mean w xs) =
           Some (Some (sum_list (take w (drop (length xs - w) xs)) / of_nat w))"
proof -
  have ne: "rolling_mean w xs \<noteq> []" using assms(1) by (simp add: rolling_mean_def)
  then have "last (rolling_mean w xs) \<in> set (rolling_mean w xs)" by (rule last_in_set)
  then have "\<not> list_all (\<lambda>v. v = None) (rolling_mean w xs)"
    using last_rolling_mean [OF assms] by (auto simp add: list_all_iff)
  then show ?thesis by (simp add: last_ma_def last_rolling_mean [OF assms])
qed

lemma ma_crossover_block_defined:
  "not_enough_ma_data \<notin> set (snd a) \<Longrightarrow>
   not_enough_ma_data \<notin> set (snd (ma_crossover_block p (Some m) (Some n) a))"
  by (cases a) (simp add: ma_crossover_block_def not_enough_ma_data_def)

lemma week52_range_block_no_ma_reason:
  "not_enough_ma_data \<notin> set (snd a) \<Longrightarrow>
   not_enough_ma_data \<notin> set (snd (week52_range_block hi lo p a))"
  by (cases a)
    (simp add: week52_range_block_def not_enough_ma_data_def range_not_available_def Let_def)

lemma recent_performance_block_no_ma_reason:
  "not_enough_ma_data \<notin> set (snd a) \<Longrightarrow>
   not_enough_ma_data \<notin> set (snd (recent_performance_block cs a))"
  by (cases a) (simp add: recent_performance_block_def not_enough_ma_data_def Let_def)

lemma rising_history_length: "length rising_history = 252"
  by (simp add: rising_history_def)

text \<open>
  Claim C9. With at least 200 bars (closes are numbers in this model) the latest 50-day
  and 200-day moving averages are both defined: each is the mean of the last 50, or 200,
  closes of the history in date order. So the branch of the crossover block that reports
  not enough data for the moving averages is never taken, and its reason never appears in
  the result.
\<close>

theorem moving_averages_defined:
  assumes "200 \<le> length historical_data"
  shows "last_ma (rolling_mean 50 (map Close (sort_key Date historical_data))) =
           Some (Some (sum_list (take 50 (drop (length historical_data - 50)
                                   (map Close (sort_key Date historical_data)))) / 50)) \<and>
         last_ma (rolling_mean 200 (map Close (sort_key Date historical_data))) =
           Some (Some (sum_list (take 200 (drop (length historical_data - 200)
                                   (map Close (sort_key Date historical_data)))) / 200)) \<and>
         ''Not enough data to calculate 50-day or 200-day moving averages.'' \<notin>
           set (snd (calculate_technical_analysis_score historical_data current_price
                  fifty_two_week_high fifty_two_week_low))"
proof -
  define closes where "closes = map Close (sort_key Date historical_data)"
  have len: "length closes = length historical_data" by (simp add: closes_def)
  have ne: "closes \<noteq> []" using assms len by auto
  have m50: "last_ma (rolling_mean 50 closes) =
      Some (Some (sum_list (take 50 (drop (length historical_data - 50) closes)) / 50))"
    using last_ma_rolling_mean [of closes 50] ne assms len by simp
  have m200: "last_ma (rolling_mean 200 closes) =
      Some (Some (sum_list (take 200 (drop (length historical_data - 200) closes)) / 200))"
    using last_ma_rolling_mean [of closes 200] ne assms len by simp
  define start where "start = (if current_price = VNone \<or> \<not> is_num current_price then
       (last closes,
        [''Using last available closing price for current price in technical analysis.''])
     else (num_val current_price, []))"
  let ?a1 = "ma_crossover_block (fst start) (last_ma (rolling_mean 50 closes))
               (last_ma (rolling_mean 200 closes)) (0, snd start)"
  let ?a2 = "week52_range_block fifty_two_week_high fifty_two_week_low (fst start) ?a1"
  let ?a3 = "recent_performance_block closes ?a2"
  have s0: "not_enough_ma_data \<notin> set (snd (0::int, snd start))"
    by (simp add: start_def not_enough_ma_data_def)
  have "not_enough_ma_data \<notin> set (snd ?a1)"
    unfolding m50 m200 using s0 by (rule ma_crossover_block_defined)
  then have "not_enough_ma_data \<notin> set (snd ?a2)" by (rule week52_range_block_no_ma_reason)
  then have a3: "not_enough_ma_data \<notin> set (snd ?a3)"
    by (rule recent_performance_block_no_ma_reason)
  have "snd (calculate_technical_analysis_score historical_data current_price
               fifty_two_week_high fifty_two_week_low) =
      (if snd ?a3 = [] then
         snd ?a3 @ [''Limited technical data available for comprehensive analysis.'']
       else snd ?a3)"
    by (simp add: technical_long [OF assms] Let_def closes_def start_def)
  with a3 have "not_enough_ma_data \<notin>
      set (snd (calculate_technical_analysis_score historical_data current_price
                  fifty_two_week_high fifty_two_week_low))"
    by (auto simp add: not_enough_ma_data_def)
  with m50 m200 show ?thesis by (simp add: closes_def not_enough_ma_data_def)
qed

theorem moving_averages_defined_witness:
  "200 \<le> length rising_history \<and>
   last_ma (rolling_mean 50 (map Close (sort_key Date rising_history))) \<noteq> None \<and>
   last_ma (rolling_mean 200 (map Close (sort_key Date rising_history))) \<noteq> None \<and>
   ''Not enough data to calculate 50-day or 200-day moving averages.'' \<notin>
     set (snd (calculate_technical_analysis_score rising_history VNone (Some 351) (Some 100)))"
proof -
  have long: "200 \<le> length rising_history" by (simp add: rising_history_length)
  show ?thesis
    using long moving_averages_defined [OF long, of VNone "Some 351" "Some 100"] by simp
qed

lemma recent_performance_block_keeps:
  "r \<in> set (snd a) \<Longrightarrow> r \<in> set (snd (recent_performance_block cs a))"
  by (cases a) (simp add: recent_performance_block_def Let_def)

lemma range_block_skipped:
  "hi = None \<or> hi = Some 0 \<or> lo = None \<or> lo = Some 0 \<or> price = 0 \<Longrightarrow>
   week52_range_block hi lo price (score, rs) = (score, rs @ [range_not_available])"
  by (auto simp add: week52_range_block_def)

lemma technical_range_skipped:
  assumes "200 \<le> length h"
    and "hi = None \<or> hi = Some 0 \<or> lo = None \<or> lo = Some 0 \<or> p = VNum 0"
  shows "calculate_technical_analysis_score h p hi lo =
         calculate_technical_analysis_score h p None None"
  using assms(2)
  by (auto simp add: technical_long [OF assms(1)] Let_def week52_range_block_def)

lemma technical_range_absent_reason:
  assumes "200 \<le> length h"
  shows "range_not_available \<in> set (snd (calculate_technical_analysis_score h p None None))"
proof -
  define closes where "closes = map Close (sort_key Date h)"
  define start where "start = (if p = VNone \<or> \<not> is_num p then
       (last closes,
        [''Using last available closing price for current price in technical analysis.''])
     else (num_val p, []))"
  let ?a1 = "ma_crossover_block (fst start) (last_ma (rolling_mean 50 closes))
               (last_ma (rolling_mean 200 closes)) (0, snd start)"
  let ?a2 = "week52_range_block None None (fst start) ?a1"
  let ?a3 = "recent_performance_block closes ?a2"
  have "range_not_available \<in> set (snd ?a2)"
    by (cases ?a1) (simp add: week52_range_block_def)
  then have a3: "range_not_available \<in> set (snd ?a3)" by (rule recent_performance_block_keeps)
  have "snd (calculate_technical_analysis_score h p None None) =
      (if snd ?a3 = [] then
         snd ?a3 @ [''Limited technical data available for comprehensive analysis.'']
       else snd ?a3)"
    by (simp add: technical_long [OF assms] Let_def closes_def start_def)
  with a3 show ?thesis by auto
qed

text \<open>
  Claim C10. The 52-week range block is skipped, adding nothing to the score and the
  reason that the 52-week data is not available, whenever the 52-week high, the 52-week
  low or the current price is zero, and not only when a bound is absent: the guard tests
  truth values. Past the guard of 200 bars the whole scorer then returns what it returns
  with both bounds absent; a 52-week low of exactly 0 is such a case, whatever the high.
\<close>

theorem range_block_skipped_on_zero:
  "(fifty_two_week_high = None \<or> fifty_two_week_high = Some 0 \<or> fifty_two_week_low = None \<or>
    fifty_two_week_low = Some 0 \<or> price = 0 \<longrightarrow>
    week52_range_block fifty_two_week_high fifty_two_week_low price (score, rs) =
      (score, rs @ [''52-Week High/Low data not available for range analysis.''])) \<and>
   (200 \<le> length historical_data \<and>
    (fifty_two_week_high = None \<or> fifty_two_week_high = Some 0 \<or> fifty_two_week_low = None \<or>
     fifty_two_week_low = Some 0 \<or> current_price = VNum 0) \<longrightarrow>
    calculate_technical_analysis_score historical_data current_price fifty_two_week_high
      fifty_two_week_low =
    calculate_technical_analysis_score historical_data current_price None None \<and>
    ''52-Week High/Low data not available for range analysis.'' \<in>
      set (snd (calculate_technical_analysis_score historical_data current_price
             fifty_two_week_high fifty_two_week_low)))"
proof -
  have block: "fifty_two_week_high = None \<or> fifty_two_week_high = Some 0 \<or>
      fifty_two_week_low = None \<or> fifty_two_week_low = Some 0 \<or> price = 0 \<longrightarrow>
    week52_range_block fifty_two_week_high fifty_two_week_low price (score, rs) =
      (score, rs @ [''52-Week High/Low data not available for range analysis.''])"
    using range_block_skipped [of fifty_two_week_high fifty_two_week_low price score rs]
    by (simp add: range_not_available_def)
  have whole: "200 \<le> length historical_data \<and>
      (fifty_two_week_high = None \<or> fifty_two_week_high = Some 0 \<or>
       fifty_two_week_low = None \<or> fifty_two_week_low = Some 0 \<or> current_price = VNum 0) \<longrightarrow>
      calculate_technical_analysis_score historical_data current_price fifty_two_week_high
        fifty_two_week_low =
      calculate_technical_analysis_score historical_data current_price None None \<and>
      ''52-Week High/Low data not available for range analysis.'' \<in>
        set (snd (calculate_technical_analysis_score historical_data current_price
               fifty_two_week_high fifty_two_week_low))"
  proof
    assume a: "200 \<le> length historical_data \<and>
      (fifty_two_week_high = None \<or> fifty_two_week_high = Some 0 \<or>
       fifty_two_week_low = None \<or> fifty_two_week_low = Some 0 \<or> current_price = VNum 0)"
    then have eq: "calculate_technical_analysis_score historical_data current_price
        fifty_two_week_high fifty_two_week_low =
      calculate_technical_analysis_score historical_data current_price None None"
      using technical_range_skipped by blast
    moreover have "range_not_available \<in>
        set (snd (calculate_technical_analysis_score historical_data current_price None None))"
      using a technical_range_absent_reason by blast
    ultimately show "calculate_technical_analysis_score historical_data current_price
        fifty_two_week_high fifty_two_week_low =
      calculate_technical_analysis_score historical_data current_price None None \<and>
      ''52-Week High/Low data not available for range analysis.'' \<in>
        set (snd (calculate_technical_analysis_score historical_data current_price
               fifty_two_week_high fifty_two_week_low))"
      by (simp add: range_not_available_def)
  qed
  from block whole show ?thesis by blast
qed

theorem range_block_skipped_on_zero_witness:
  "week52_range_block (Some 351) (Some 0) 360 (40, []) =
     (40, [''52-Week High/Low data not available for range analysis.'']) \<and>
   fst (week52_range_block (Some 351) (Some 100) 360 (40, [])) = 70 \<and>
   200 \<le> length rising_history \<and>
   calculate_technical_analysis_score rising_history (VNum 360) (Some 351) (Some 0) =
     calculate_technical_analysis_score rising_history (VNum 360) None None \<and>
   ''52-Week High/Low data not available for range analysis.'' \<in>
     set (snd (calculate_technical_analysis_score rising_history (VNum 360) (Some 351) (Some 0)))"
proof -
  have long: "200 \<le> length rising_history" by (simp add: rising_history_length)
  have with_low: "fst (week52_range_block (Some 351) (Some 100) 360 (40, [])) = 70"
    by (simp add: week52_range_block_def Let_def)
  note skipped =
    range_block_skipped_on_zero [of "Some 351" "Some 0" 360 40 "[]" rising_history "VNum 360"]
  from skipped have block: "week52_range_block (Some 351) (Some 0) 360 (40, []) =
      (40, [''52-Week High/Low data not available for range analysis.''])"
    by simp
  from skipped have imp:
    "200 \<le> length rising_history \<and>
     (Some (351::rat) = None \<or> Some (351::rat) = Some 0 \<or> Some (0::rat) = None \<or>
      Some (0::rat) = Some 0 \<or> VNum 360 = VNum 0) \<longrightarrow>
     calculate_technical_analysis_score rising_history (VNum 360) (Some 351) (Some 0) =
       calculate_technical_analysis_score rising_history (VNum 360) None None \<and>
     ''52-Week High/Low data not available for range analysis.'' \<in>
       set (snd (calculate_technical_analysis_score rising_history (VNum 360) (Some 351) (Some 0)))"
    by (rule conjunct2)
  have prem: "200 \<le> length rising_history \<and>
     (Some (351::rat) = None \<or> Some (351::rat) = Some 0 \<or> Some (0::rat) = None \<or>
      Some (0::rat) = Some 0 \<or> VNum 360 = VNum 0)"
    using long by simp
  from imp prem have whole:
    "calculate_technical_analysis_score rising_history (VNum 360) (Some 351) (Some 0) =
       calculate_technical_analysis_score rising_history (VNum 360) None None \<and>
     ''52-Week High/Low data not available for range analysis.'' \<in>
       set (snd (calculate_technical_analysis_score rising_history (VNum 360) (Some 351) (Some 0)))"
    by (rule mp)
  from long with_low block whole show ?thesis by blast
qed

section \<open>The aggregator: what it returns and when it raises\<close>

lemma aggregator_returns:
  assumes "analystUpside s = VNum u"
  shows "calculate_overall_score_and_reasons s =
    Inr (s\<lparr>overallScore := Some (weighted_overall_score
               (fst (calculate_analyst_rating_score (analystRecommendation s)))
               (fst (calculate_analyst_upside_score (analystUpside s)))
               (fst (calculate_financial_analysis_score s))
               (fst (calculate_technical_analysis_score (historicalData s) (currentPrice s)
                      (fiftyTwoWeekHigh s) (fiftyTwoWeekLow s)))),
           scoreBreakdown := Some
             [(''analystRating'', fst (calculate_analyst_rating_score (analystRecommendation s))),
              (''analystUpside'', fst (calculate_analyst_upside_score (analystUpside s))),
              (''financialAnalysis'', fst (calculate_financial_analysis_score s)),
              (''technicalAnalysis'',
                fst (calculate_technical_analysis_score (historicalData s) (currentPrice s)
                      (fiftyTwoWeekHigh s) (fiftyTwoWeekLow s)))],
           suggestion := Some (fst (overall_suggestion (weighted_overall_score
               (fst (calculate_analyst_rating_score (analystRecommendation s)))
               (fst (calculate_analyst_upside_score (analystUpside s)))
               (fst (calculate_financial_analysis_score s))
               (fst (calculate_technical_analysis_score (historicalData s) (currentPrice s)
                      (fiftyTwoWeekHigh s) (fiftyTwoWeekLow s)))))),
           reasons := Some
             [snd (overall_suggestion (weighted_overall_score
               (fst (calculate_analyst_rating_score (analystRecommendation s)))
               (fst (calculate_analyst_upside_score (analystUpside s)))
               (fst (calculate_financial_analysis_score s))
               (fst (calculate_technical_analysis_score (historicalData s) (currentPrice s)
                      (fiftyTwoWeekHigh s) (fiftyTwoWeekLow s))))),
              ''Analyst Rating: '' @ str_opt (analystRecommendation s) @ '' - '' @
                snd (calculate_analyst_rating_score (analystRecommendation s)) @ '' (Score: '' @
                str_int (fst (calculate_analyst_rating_score (analystRecommendation s))) @ ''%)'',
              ''Analyst Upside: '' @ fmt_2f (float_mul u 100) @ ''% - '' @
                snd (calculate_analyst_upside_score (analystUpside s)) @ '' (Score: '' @
                str_int (fst (calculate_analyst_upside_score (analystUpside s))) @ ''%)'',
              ''Financial Analysis: '' @
                join_sep ''; '' (snd (calculate_financial_analysis_score s)) @ '' (Score: '' @
                str_int (fst (calculate_financial_analysis_score s)) @ ''%)'',
              ''Technical Analysis: '' @
                join_sep ''; '' (snd (calculate_technical_analysis_score (historicalData s)
                   (currentPrice s) (fiftyTwoWeekHigh s) (fiftyTwoWeekLow s))) @ '' (Score: '' @
                str_int (fst (calculate_technical_analysis_score (historicalData s)
                   (currentPrice s) (fiftyTwoWeekHigh s) (fiftyTwoWeekLow s))) @ ''%)'']\<rparr>)"
  unfolding calculate_overall_score_and_reasons_def Let_def case_prod_beta assms
  by (simp only: fmt_upside_pct.simps sum.case)

lemma aggregator_raises_none:
  "analystUpside s = VNone \<Longrightarrow> calculate_overall_score_and_reasons s = Inl TypeError"
  by (simp add: calculate_overall_score_and_reasons_def Let_def case_prod_beta)

lemma aggregator_raises_str:
  "analystUpside s = VStr x \<Longrightarrow> calculate_overall_score_and_reasons s = Inl ValueError"
  by (simp add: calculate_overall_score_and_reasons_def Let_def case_prod_beta)

text \<open>The aggregator returns exactly on the snapshots whose upside is a number.\<close>

lemma aggregator_returns_iff:
  "(\<exists>s'. calculate_overall_score_and_reasons s = Inr s') \<longleftrightarrow> is_num (analystUpside s)"
  by (cases "analystUpside s")
     (auto simp add: aggregator_returns aggregator_raises_none aggregator_raises_str)

lemma overall_examples:
  "weighted_overall_score 80 80 80 80 = 80"
  "fst (overall_suggestion 80) = ''Buy''"
  "fst (overall_suggestion 85) = ''Strong Buy''"
  "fst (overall_suggestion 84) = ''Buy''"
  "weighted_overall_score 100 50 100 50 = 75"
  by (simp_all add: weighted_overall_score_def py_round_def overall_suggestion_def Let_def)

lemma overall_tie_to_even: "weighted_overall_score 100 50 100 0 = 62"
  by code_simp

lemma overall_sentence_prefix:
  "prefix ''**Overall Recommendation: '' (snd (overall_suggestion n))"
  by (simp add: overall_suggestion_def)

text \<open>
  On a snapshot with a numeric upside the overall score is the weighted sum of the four
  scores rounded to a nearest integer, and the suggestion follows the threshold chain.
\<close>

lemma overall_score_formula:
  assumes "analystUpside s = VNum u"
  shows "\<exists>s' n. calculate_overall_score_and_reasons s = Inr s' \<and> overallScore s' = Some n \<and>
     n = py_round (of_int (fst (calculate_analyst_rating_score (analystRecommendation s))) * (25 / 100) +
                   of_int (fst (calculate_analyst_upside_score (analystUpside s))) * (25 / 100) +
                   of_int (fst (calculate_financial_analysis_score s)) * (25 / 100) +
                   of_int (fst (calculate_technical_analysis_score (historicalData s)
                      (currentPrice s) (fiftyTwoWeekHigh s) (fiftyTwoWeekLow s))) * (25 / 100)) \<and>
     suggestion s' = Some (if n \<ge> 85 then ''Strong Buy'' else if n \<ge> 70 then ''Buy''
                           else if n \<ge> 50 then ''Hold'' else if n \<ge> 30 then ''Sell''
                           else ''Strong Sell'')"
  by (simp add: aggregator_returns [OF assms] weighted_overall_score_def overall_suggestion_def)

text \<open>
  Claim C1: a defect of the code. The upside scorer gives the neutral 50 for an absent
  upside, but the aggregator then formats \<^verbatim>\<open>analyst_upside * 100\<close> for its summary
  line and raises \<^verbatim>\<open>TypeError\<close>: on the snapshot of a ticker without analyst target
  price no report is returned.
\<close>

theorem aggregator_raises_on_absent_upside:
  "calculate_analyst_upside_score (analystUpside no_target_snapshot) =
     (50, ''Analyst target price or upside data not available.'') \<and>
   calculate_overall_score_and_reasons no_target_snapshot = Inl TypeError"
  by (simp add: aggregator_raises_none no_target_snapshot_def absent_snapshot_def
      calculate_analyst_upside_score_def)

text \<open>
  Claim C3: the same defect. On a snapshot whose four scores are 100, 50, 100 and 50 the
  claimed overall score is 75 and the suggestion Buy, but the upside is absent and the
  aggregator raises before it computes either.
\<close>

theorem overall_score_not_computed_without_upside:
  "fst (calculate_analyst_rating_score (analystRecommendation strong_buy_snapshot)) = 100 \<and>
   fst (calculate_analyst_upside_score (analystUpside strong_buy_snapshot)) = 50 \<and>
   fst (calculate_financial_analysis_score strong_buy_snapshot) = 100 \<and>
   fst (calculate_technical_analysis_score (historicalData strong_buy_snapshot)
          (currentPrice strong_buy_snapshot) (fiftyTwoWeekHigh strong_buy_snapshot)
          (fiftyTwoWeekLow strong_buy_snapshot)) = 50 \<and>
   weighted_overall_score 100 50 100 50 = 75 \<and>
   fst (overall_suggestion 75) = ''Buy'' \<and>
   calculate_overall_score_and_reasons strong_buy_snapshot = Inl TypeError"
proof -
  have up: "analystUpside strong_buy_snapshot = VNone"
    by (simp add: strong_buy_snapshot_def best_financials_def absent_snapshot_def)
  have fin: "fst (calculate_financial_analysis_score strong_buy_snapshot) = 100"
    by (rule financial_best)
       (simp_all add: strong_buy_snapshot_def best_financials_def absent_snapshot_def)
  have tech: "fst (calculate_technical_analysis_score (historicalData strong_buy_snapshot)
          (currentPrice strong_buy_snapshot) (fiftyTwoWeekHigh strong_buy_snapshot)
          (fiftyTwoWeekLow strong_buy_snapshot)) = 50"
    by (simp add: strong_buy_snapshot_def best_financials_def absent_snapshot_def
        calculate_technical_analysis_score_def)
  have rat: "fst (calculate_analyst_rating_score (analystRecommendation strong_buy_snapshot)) = 100"
    by (simp add: strong_buy_snapshot_def best_financials_def absent_snapshot_def
        calculate_analyst_rating_score_def)
  have ups: "fst (calculate_analyst_upside_score (analystUpside strong_buy_snapshot)) = 50"
    by (simp add: up calculate_analyst_upside_score_def)
  show ?thesis
    using rat ups fin tech overall_examples(5) aggregator_raises_none [OF up]
    by (simp add: overall_suggestion_def)
qed

text \<open>
  Claim C7, as stated, fails: the first reason of a report starts with the two asterisks
  of Markdown emphasis, not with the word Overall.
\<close>

theorem first_reason_starts_with_asterisks:
  "take 9 (reasons_of (calculate_overall_score_and_reasons upside_snapshot) ! 0) = ''**Overall'' \<and>
   \<not> prefix ''Overall'' (reasons_of (calculate_overall_score_and_reasons upside_snapshot) ! 0)"
proof -
  have up: "analystUpside upside_snapshot = VNum (2499 / 10000)"
    by (simp add: upside_snapshot_def absent_snapshot_def)
  obtain rest where "snd (overall_suggestion (weighted_overall_score
       (fst (calculate_analyst_rating_score (analystRecommendation upside_snapshot)))
       (fst (calculate_analyst_upside_score (analystUpside upside_snapshot)))
       (fst (calculate_financial_analysis_score upside_snapshot))
       (fst (calculate_technical_analysis_score (historicalData upside_snapshot)
              (currentPrice upside_snapshot) (fiftyTwoWeekHigh upside_snapshot)
              (fiftyTwoWeekLow upside_snapshot))))) = ''**Overall Recommendation: '' @ rest"
    using overall_sentence_prefix unfolding prefix_def by blast
  then show ?thesis
    by (simp add: aggregator_returns [OF up] reasons_of_def)
qed

text \<open>
  Claim C7, amended. For every snapshot whose upside is a number (the snapshots on which
  the aggregator returns a report) the reasons of the report are exactly five: the
  overall sentence, which starts with \<^verbatim>\<open>**Overall Recommendation: \<close>, followed by
  the lines of the analyst rating, the analyst upside, the financial analysis and the
  technical analysis, in this order.
\<close>

theorem report_reasons_shape:
  assumes "analystUpside stock_data = VNum u"
  shows "(\<exists>s'. calculate_overall_score_and_reasons stock_data = Inr s' \<and>
                reasons s' = Some (reasons_of (calculate_overall_score_and_reasons stock_data))) \<and>
         length (reasons_of (calculate_overall_score_and_reasons stock_data)) = 5 \<and>
         prefix ''**Overall Recommendation: ''
           (reasons_of (calculate_overall_score_and_reasons stock_data) ! 0) \<and>
         prefix ''Analyst Rating: ''
           (reasons_of (calculate_overall_score_and_reasons stock_data) ! 1) \<and>
         prefix ''Analyst Upside: ''
           (reasons_of (calculate_overall_score_and_reasons stock_data) ! 2) \<and>
         prefix ''Financial Analysis: ''
           (reasons_of (calculate_overall_score_and_reasons stock_data) ! 3) \<and>
         prefix ''Technical Analysis: ''
           (reasons_of (calculate_overall_score_and_reasons stock_data) ! 4)"
  by (simp add: aggregator_returns [OF assms] reasons_of_def overall_sentence_prefix)

theorem report_reasons_shape_witness:
  "analystUpside upside_snapshot = VNum (2499 / 10000) \<and>
   length (reasons_of (calculate_overall_score_and_reasons upside_snapshot)) = 5 \<and>
   prefix ''**Overall Recommendation: ''
     (reasons_of (calculate_overall_score_and_reasons upside_snapshot) ! 0) \<and>
   prefix ''Technical Analysis: ''
     (reasons_of (calculate_overall_score_and_reasons upside_snapshot) ! 4)"
proof -
  have up: "analystUpside upside_snapshot = VNum (2499 / 10000)"
    by (simp add: upside_snapshot_def absent_snapshot_def)
  show ?thesis
    using up report_reasons_shape [OF up] by blast
qed

text \<open>
  Claim C8, as stated, fails: the aggregator stores its results in the dictionary it was
  given. After the call the snapshot holds an overall score that it did not hold before.
\<close>

theorem aggregator_writes_into_snapshot:
  "map_sum id overallScore (calculate_overall_score_and_reasons upside_snapshot) =
     Inr (Some 55) \<and>
   overallScore upside_snapshot = None"
proof -
  have up: "analystUpside upside_snapshot = VNum (2499 / 10000)"
    by (simp add: upside_snapshot_def absent_snapshot_def)
  have fin: "fst (calculate_financial_analysis_score upside_snapshot) = 0"
    by (simp add: financial_reasons_absent upside_snapshot_def absent_snapshot_def)
  have tech: "fst (calculate_technical_analysis_score (historicalData upside_snapshot)
          (currentPrice upside_snapshot) (fiftyTwoWeekHigh upside_snapshot)
          (fiftyTwoWeekLow upside_snapshot)) = 50"
    by (simp add: upside_snapshot_def absent_snapshot_def calculate_technical_analysis_score_def)
  have rat: "fst (calculate_analyst_rating_score (analystRecommendation upside_snapshot)) = 80"
    by (simp add: upside_snapshot_def absent_snapshot_def calculate_analyst_rating_score_def)
  have ups: "fst (calculate_analyst_upside_score (analystUpside upside_snapshot)) = 90"
    by (simp add: up calculate_analyst_upside_score_def Let_def)
  have w: "weighted_overall_score 80 90 0 50 = 55"
    by (simp add: weighted_overall_score_def py_round_def Let_def)
  show ?thesis
    by (simp add: aggregator_returns [OF up] rat ups fin tech w)
      (simp add: upside_snapshot_def absent_snapshot_def)
qed

text \<open>
  Claim C8, amended. Whenever the aggregator returns, the dictionary it returns is the
  snapshot it was given with four keys stored, \<^verbatim>\<open>overallScore\<close>,
  \<^verbatim>\<open>scoreBreakdown\<close>, \<^verbatim>\<open>suggestion\<close> and \<^verbatim>\<open>reasons\<close>; every other field of the
  snapshot is unchanged.
\<close>

theorem aggregator_frame:
  assumes "calculate_overall_score_and_reasons stock_data = Inr s'"
  shows "s' = stock_data\<lparr>overallScore := overallScore s', scoreBreakdown := scoreBreakdown s',
                          suggestion := suggestion s', reasons := reasons s'\<rparr> \<and>
         overallScore s' \<noteq> None \<and> scoreBreakdown s' \<noteq> None \<and> suggestion s' \<noteq> None \<and>
         reasons s' \<noteq> None"
proof (cases "analystUpside stock_data")
  case VNone
  with assms show ?thesis by (simp add: aggregator_raises_none)
next
  case (VStr x)
  with assms show ?thesis by (simp add: aggregator_raises_str)
next
  case (VNum u)
  from assms show ?thesis unfolding aggregator_returns [OF VNum] by auto
qed

theorem aggregator_frame_witness:
  "\<exists>s'. calculate_overall_score_and_reasons upside_snapshot = Inr s' \<and>
     s' = upside_snapshot\<lparr>overallScore := overallScore s', scoreBreakdown := scoreBreakdown s',
                           suggestion := suggestion s', reasons := reasons s'\<rparr> \<and>
     overallScore s' \<noteq> None \<and> reasons s' \<noteq> None"
proof -
  have "is_num (analystUpside upside_snapshot)"
    by (simp add: upside_snapshot_def absent_snapshot_def)
  then obtain s' where ret: "calculate_overall_score_and_reasons upside_snapshot = Inr s'"
    using aggregator_returns_iff by blast
  from ret aggregator_frame [OF ret] show ?thesis by blast
qed

end
